theory Spec2Isabelle
  imports Complex_Main "HOL-Library.Word"
begin

section \<open>Data model\<close>

text \<open>
  A Go \<^verbatim>\<open>string\<close> is an immutable sequence of bytes, indexed bytewise by \<^verbatim>\<open>s[i]\<close>:
  it is modelled by \<^typ>\<open>string\<close>, whose characters are the bytes 0..255.
  A \<^verbatim>\<open>[]rune\<close> is a sequence of 32-bit code points (\<^verbatim>\<open>int32\<close>, compared only for equality): a list of \<^typ>\<open>32 word\<close>.
  Go's \<^verbatim>\<open>int\<close> and \<^verbatim>\<open>uint\<close> are 64 bits wide; every integer the metrics compute is
  bounded by a small multiple of the length of an input, which is itself below \<open>2^63\<close>,
  so the counters never wrap and are modelled by \<^typ>\<open>int\<close> and \<^typ>\<open>nat\<close>.

  The metrics report a failure either through their \<^verbatim>\<open>error\<close> result
  (\<^verbatim>\<open>errors.New(...)\<close>) or, where an index is out of range, by a run-time panic.
  Both are values of the type \<open>error\<close>, returned on the left of a sum.
\<close>

type_synonym byte = char
type_synonym rune = "32 word"

datatype error =
    LengthMismatch
  | InvalidAlphabetSize
  | InsufficientLength
  | InsufficientContent
  | IndexOutOfRange

section \<open>Exact-position metrics\<close>

text \<open>\<^verbatim>\<open>stralgo.HammingDistance(a, b string) (int, error)\<close>\<close>

definition stralgo_HammingDistance :: "string \<Rightarrow> string \<Rightarrow> error + int" where
  "stralgo_HammingDistance a b =
     (let aLen = length a; bLen = length b in
      if aLen \<noteq> bLen then Inl LengthMismatch
      else Inr (fold (\<lambda>i d. if a ! i \<noteq> b ! i then d + 1 else d) [0..<aLen] 0))"

text \<open>\<^verbatim>\<open>bytewise.HammingDistance(a, b string) (uint, error)\<close>\<close>

definition bytewise_HammingDistance :: "string \<Rightarrow> string \<Rightarrow> error + nat" where
  "bytewise_HammingDistance a b =
     (let aLen = length a; bLen = length b in
      if aLen \<noteq> bLen then Inl LengthMismatch
      else Inr (fold (\<lambda>i d. if a ! i \<noteq> b ! i then d + 1 else d) [0..<aLen] 0))"

text \<open>\<^verbatim>\<open>stralgo.LeeDistance(a, b string, q int) (int, error)\<close>; \<open>of_char\<close> is the
  conversion \<^verbatim>\<open>int(a[i])\<close> of a byte to its value 0..255.\<close>

definition LeeDistance :: "string \<Rightarrow> string \<Rightarrow> int \<Rightarrow> error + int" where
  "LeeDistance a b q =
     (if q < 2 then Inl InvalidAlphabetSize
      else let aLen = length a; bLen = length b in
        if aLen \<noteq> bLen then Inl LengthMismatch
        else Inr (fold (\<lambda>i d.
               let diff0 = of_char (a ! i) - of_char (b ! i);
                   diff = (if diff0 < 0 then - diff0 else diff0);
                   qDiff = q - diff
               in if diff < qDiff then d + diff else d + qDiff) [0..<aLen] 0))"

section \<open>Bigram-set metrics\<close>

text \<open>
  The \<^verbatim>\<open>float64\<close> results of the similarity metrics are modelled by the rational
  numbers they denote before rounding: the counters \<^verbatim>\<open>totalBigrams\<close>,
  \<^verbatim>\<open>sharedBigrams\<close> and \<^verbatim>\<open>intersection\<close> hold whole numbers (exact in
  \<^verbatim>\<open>float64\<close> below \<open>2^53\<close>) and are natural numbers here; the final quotient is
  exact in the model. A Go map \<^verbatim>\<open>map[K]bool\<close> is a function to \<^typ>\<open>bool\<close>: a missing
  key reads as \<^verbatim>\<open>false\<close>. The capacity hint of \<^verbatim>\<open>make\<close> has no effect on a map's
  contents.
\<close>

text \<open>\<^verbatim>\<open>bytewise.DiceCoefficient(a, b string) (float64, error)\<close>; the bigram
  \<^verbatim>\<open>a[i : i+2]\<close> is the two-byte substring at \<open>i\<close>.\<close>

definition bytewise_DiceCoefficient :: "string \<Rightarrow> string \<Rightarrow> error + rat" where
  "bytewise_DiceCoefficient a b =
     (let aLimit = int (length a) - 1; bLimit = int (length b) - 1 in
      if aLimit < 1 \<and> bLimit < 1 then Inl InsufficientLength
      else
        let (aSet, totalBigrams) =
              fold (\<lambda>i (aSet, totalBigrams).
                      let bigram = take 2 (drop i a) in
                      if \<not> aSet bigram then (aSet(bigram := True), totalBigrams + 1)
                      else (aSet, totalBigrams))
                   [0..<nat aLimit] (\<lambda>_. False, 0::nat);
            (bSet, totalBigrams, sharedBigrams) =
              fold (\<lambda>i (bSet, totalBigrams, sharedBigrams).
                      let bigram = take 2 (drop i b) in
                      if \<not> bSet bigram then
                        (bSet(bigram := True), totalBigrams + 1,
                         if aSet bigram then sharedBigrams + 1 else sharedBigrams)
                      else (bSet, totalBigrams, sharedBigrams))
                   [0..<nat bLimit] (\<lambda>_. False, totalBigrams, 0::nat)
        in Inr (2 * of_nat sharedBigrams / of_nat totalBigrams))"

text \<open>\<^verbatim>\<open>runewise.DiceCoefficient(a, b []rune) (float64, error)\<close>; the bigram is the
  struct \<^verbatim>\<open>runeBigram{rA: a[i], rB: a[i+1]}\<close>, a pair.\<close>

type_synonym runeBigram = "rune \<times> rune"

definition runewise_DiceCoefficient :: "rune list \<Rightarrow> rune list \<Rightarrow> error + rat" where
  "runewise_DiceCoefficient a b =
     (let aLen = int (length a); bLen = int (length b);
          aLimit = aLen - 1; bLimit = bLen - 1 in
      if aLimit < 1 \<and> bLimit < 1 then Inl InsufficientLength
      else
        let (aSet, totalBigrams) =
              fold (\<lambda>i (aSet, totalBigrams).
                      let bigram = (a ! i, a ! (i + 1)) in
                      if \<not> aSet bigram then (aSet(bigram := True), totalBigrams + 1)
                      else (aSet, totalBigrams))
                   [0..<nat aLimit] (\<lambda>_. False, 0::nat);
            (bSet, totalBigrams, sharedBigrams) =
              fold (\<lambda>i (bSet, totalBigrams, sharedBigrams).
                      let bigram = (b ! i, b ! (i + 1)) in
                      if \<not> bSet bigram then
                        (bSet(bigram := True), totalBigrams + 1,
                         if aSet bigram then sharedBigrams + 1 else sharedBigrams)
                      else (bSet, totalBigrams, sharedBigrams))
                   [0..<nat bLimit] (\<lambda>_. False, totalBigrams, 0::nat)
        in Inr (2 * of_nat sharedBigrams / of_nat totalBigrams))"

text \<open>The distinct bigrams of a sequence, as the specification describes them: the set of
  adjacent pairs. A sequence of length 0 or 1 has none.\<close>

definition byte_bigrams :: "string \<Rightarrow> string set" where
  "byte_bigrams s = (\<lambda>i. take 2 (drop i s)) ` {i. i + 1 < length s}"

definition rune_bigrams :: "rune list \<Rightarrow> runeBigram set" where
  "rune_bigrams s = (\<lambda>i. (s ! i, s ! (i + 1))) ` {i. i + 1 < length s}"

text \<open>\<^verbatim>\<open>type byteBigram struct { a, b byte }\<close>; the zero value \<^verbatim>\<open>byteBigram{}\<close> is the
  pair of two NUL bytes, and \<^verbatim>\<open>runeBigram{}\<close> the pair of two zero runes.\<close>

type_synonym byteBigram = "byte \<times> byte"

definition zeroByteBigram :: byteBigram where
  "zeroByteBigram = (CHR 0x00, CHR 0x00)"

definition zeroRuneBigram :: runeBigram where
  "zeroRuneBigram = (0, 0)"

text \<open>\<^verbatim>\<open>bytewise.asciiUpperOrSpace(b byte) (byte, bool)\<close>, on the value \<open>n\<close> of the byte;
  \<^verbatim>\<open>unicode.MaxASCII\<close> is 0x7F. The cases 0x85 and 0xA0 of the \<^verbatim>\<open>switch\<close> stand under
  the guard \<^verbatim>\<open>b <= unicode.MaxASCII\<close>, as in the source.\<close>

definition asciiUpperOrSpace :: "byte \<Rightarrow> byte \<times> bool" where
  "asciiUpperOrSpace b =
     (let n = (of_char b :: nat) in
      if n \<le> 127 then
        if 97 \<le> n \<and> n \<le> 122 then (char_of (n - (97 - 65)), False)
        else if n = 9 \<or> n = 10 \<or> n = 11 \<or> n = 12 \<or> n = 13 \<or> n = 32 \<or> n = 133 \<or> n = 160
          then (b, True)
        else (b, False)
      else (b, False))"

text \<open>The loop of \<^verbatim>\<open>asciiUpperWordLetterPairs\<close>: \<open>i\<close> is advanced twice when the second
  byte of the pair is whitespace (\<^verbatim>\<open>i++; continue\<close>). The array \<^verbatim>\<open>bigrams\<close> has
  \<open>limit\<close> slots and \<open>numPairs \<le> i\<close>, so the write is in range.\<close>

function asciiPairsLoop ::
  "string \<Rightarrow> nat \<Rightarrow> nat \<Rightarrow> byteBigram list \<Rightarrow> nat \<Rightarrow> byteBigram list \<times> nat" where
  "asciiPairsLoop s limit i bigrams numPairs =
     (if i < limit then
        let (b, bIsSpace) = asciiUpperOrSpace (s ! (i + 1)) in
        if bIsSpace then asciiPairsLoop s limit (i + 2) bigrams numPairs
        else
          let (a, aIsSpace) = asciiUpperOrSpace (s ! i) in
          if aIsSpace then asciiPairsLoop s limit (i + 1) bigrams numPairs
          else asciiPairsLoop s limit (i + 1) (bigrams[numPairs := (a, b)]) (numPairs + 1)
      else (bigrams, numPairs))"
  by pat_completeness auto
termination
  by (relation "measure (\<lambda>(s, limit, i, bigrams, numPairs). limit - i)") auto

declare asciiPairsLoop.simps [simp del]

definition asciiUpperWordLetterPairs :: "string \<Rightarrow> byteBigram list \<times> nat" where
  "asciiUpperWordLetterPairs s =
     (let limit = int (length s) - 1 in
      if limit < 1 then ([], 0)
      else
        let (bigrams, numPairs) =
              asciiPairsLoop s (nat limit) 0 (replicate (nat limit) zeroByteBigram) 0
        in (take numPairs bigrams, numPairs))"

text \<open>\<^verbatim>\<open>runewise.upperWordLetterPairs(runes []rune) ([]runeBigram, int)\<close>. The
  classification \<^verbatim>\<open>unicode.IsSpace\<close> and the mapping \<^verbatim>\<open>unicode.ToUpper\<close> belong to
  the Go standard library and are parameters.\<close>

function upperPairsLoop ::
  "(rune \<Rightarrow> bool) \<Rightarrow> (rune \<Rightarrow> rune) \<Rightarrow> rune list \<Rightarrow> nat \<Rightarrow> nat \<Rightarrow> runeBigram list \<Rightarrow> nat
     \<Rightarrow> runeBigram list \<times> nat" where
  "upperPairsLoop IsSpace ToUpper runes limit i bigrams numPairs =
     (if i < limit then
        let a = runes ! i; b = runes ! (i + 1) in
        if IsSpace b then upperPairsLoop IsSpace ToUpper runes limit (i + 2) bigrams numPairs
        else if IsSpace a then upperPairsLoop IsSpace ToUpper runes limit (i + 1) bigrams numPairs
        else upperPairsLoop IsSpace ToUpper runes limit (i + 1)
               (bigrams[numPairs := (ToUpper a, ToUpper b)]) (numPairs + 1)
      else (bigrams, numPairs))"
  by pat_completeness auto
termination
  by (relation "measure (\<lambda>(IsSpace, ToUpper, runes, limit, i, bigrams, numPairs). limit - i)") auto

declare upperPairsLoop.simps [simp del]

definition upperWordLetterPairs ::
  "(rune \<Rightarrow> bool) \<Rightarrow> (rune \<Rightarrow> rune) \<Rightarrow> rune list \<Rightarrow> runeBigram list \<times> nat" where
  "upperWordLetterPairs IsSpace ToUpper runes =
     (let limit = int (length runes) - 1 in
      if limit < 1 then ([], 0)
      else
        let (bigrams, numPairs) =
              upperPairsLoop IsSpace ToUpper runes (nat limit) 0
                (replicate (nat limit) zeroRuneBigram) 0
        in (take numPairs bigrams, numPairs))"

text \<open>The inner loop of \<^verbatim>\<open>WhiteSimilarity\<close>, \<^verbatim>\<open>for j, bBigram := range bPairs\<close>: at the
  first slot equal to \<open>aBigram\<close> the slot is overwritten with the zero bigram \<open>z\<close> and the
  loop breaks. The result tells whether a slot was found, and the list after the write.\<close>

fun consumeFirst :: "'k \<Rightarrow> 'k \<Rightarrow> 'k list \<Rightarrow> bool \<times> 'k list" where
  "consumeFirst z aBigram [] = (False, [])"
| "consumeFirst z aBigram (bBigram # rest) =
     (if aBigram = bBigram then (True, z # rest)
      else let (found, rest') = consumeFirst z aBigram rest in (found, bBigram # rest'))"

text \<open>The outer loop, \<^verbatim>\<open>for _, aBigram := range aPairs\<close>, with the state
  \<open>(intersection, bPairs)\<close>.\<close>

definition matchPairs :: "'k \<Rightarrow> 'k list \<Rightarrow> 'k list \<Rightarrow> nat \<times> 'k list" where
  "matchPairs z aPairs bPairs =
     fold (\<lambda>aBigram (intersection, bPairs).
             let (found, bPairs') = consumeFirst z aBigram bPairs in
             if found then (intersection + 1, bPairs') else (intersection, bPairs'))
          aPairs (0, bPairs)"

text \<open>\<^verbatim>\<open>bytewise.WhiteSimilarity(a, b string) (float64, error)\<close>\<close>

definition bytewise_WhiteSimilarity :: "string \<Rightarrow> string \<Rightarrow> error + rat" where
  "bytewise_WhiteSimilarity a b =
     (let (aPairs, aLen) = asciiUpperWordLetterPairs a;
          (bPairs, bLen) = asciiUpperWordLetterPairs b;
          union = aLen + bLen in
      if union = 0 then Inl InsufficientContent
      else
        let (intersection, bPairs') = matchPairs zeroByteBigram aPairs bPairs
        in Inr (2 * of_nat intersection / of_nat union))"

text \<open>\<^verbatim>\<open>runewise.WhiteSimilarity(a, b []rune) (float64, error)\<close>\<close>

definition runewise_WhiteSimilarity ::
  "(rune \<Rightarrow> bool) \<Rightarrow> (rune \<Rightarrow> rune) \<Rightarrow> rune list \<Rightarrow> rune list \<Rightarrow> error + rat" where
  "runewise_WhiteSimilarity IsSpace ToUpper a b =
     (let (aPairs, aLen) = upperWordLetterPairs IsSpace ToUpper a;
          (bPairs, bLen) = upperWordLetterPairs IsSpace ToUpper b;
          union = aLen + bLen in
      if union = 0 then Inl InsufficientContent
      else
        let (intersection, bPairs') = matchPairs zeroRuneBigram aPairs bPairs
        in Inr (2 * of_nat intersection / of_nat union))"

section \<open>Edit-distance metrics\<close>

text \<open>
  Indexing a slice or a string out of range panics in Go. Every read \<^verbatim>\<open>xs[i]\<close> and
  write \<^verbatim>\<open>xs[i] = v\<close> of the dynamic programs is checked in the model: out of range it
  yields \<open>IndexOutOfRange\<close>, and \<open>bind_err\<close> passes a failure on, so that a panic ends
  the whole call.
\<close>

definition slice_get :: "'a list \<Rightarrow> int \<Rightarrow> error + 'a" where
  "slice_get xs i =
     (if 0 \<le> i \<and> i < int (length xs) then Inr (xs ! nat i) else Inl IndexOutOfRange)"

definition slice_set :: "'a list \<Rightarrow> int \<Rightarrow> 'a \<Rightarrow> error + 'a list" where
  "slice_set xs i v =
     (if 0 \<le> i \<and> i < int (length xs) then Inr (xs[nat i := v]) else Inl IndexOutOfRange)"

definition bind_err :: "error + 'a \<Rightarrow> ('a \<Rightarrow> error + 'b) \<Rightarrow> error + 'b" where
  "bind_err m f = (case m of Inl e \<Rightarrow> Inl e | Inr x \<Rightarrow> f x)"

lemma bind_err_cong [fundef_cong]:
  "m = m' \<Longrightarrow> (\<And>x. m' = Inr x \<Longrightarrow> f x = f' x) \<Longrightarrow> bind_err m f = bind_err m' f'"
  by (auto simp: bind_err_def split: sum.splits)

text \<open>\<^verbatim>\<open>func min(a, b, c int) int\<close>\<close>

definition min3 :: "int \<Rightarrow> int \<Rightarrow> int \<Rightarrow> int" where
  "min3 a b c = (let m = a; m = (if b < m then b else m) in if c < m then c else m)"

text \<open>The loop \<^verbatim>\<open>for h := 0; h < rowLen; h++ { prevRow[h] = h }\<close> on a row made by
  \<^verbatim>\<open>make([]int, rowLen, rowLen)\<close>.\<close>

definition initRow :: "int \<Rightarrow> int list" where
  "initRow rowLen = fold (\<lambda>h row. row[nat h := h]) [0..rowLen - 1] (replicate (nat rowLen) 0)"

text \<open>\<^verbatim>\<open>bytewise.LevenshteinDistance(a, b string) (int, error)\<close>. The inner loop compares
  \<^verbatim>\<open>a[i]\<close> with \<^verbatim>\<open>b[i]\<close>, as the source does.\<close>

fun bytewise_levInner ::
  "string \<Rightarrow> string \<Rightarrow> int \<Rightarrow> int list \<Rightarrow> int list \<Rightarrow> int list \<Rightarrow> error + int list" where
  "bytewise_levInner a b i prevRow [] currRow = Inr currRow"
| "bytewise_levInner a b i prevRow (j # js) currRow =
     bind_err (slice_get a i) (\<lambda>ai.
     bind_err (slice_get b i) (\<lambda>bi.
     let cost = (if ai = bi then 0 else 1) in
     bind_err (slice_get currRow j) (\<lambda>x.
     bind_err (slice_get prevRow (j + 1)) (\<lambda>y.
     bind_err (slice_get prevRow j) (\<lambda>z.
     bind_err (slice_set currRow (j + 1) (min3 (x + 1) (y + 1) (z + cost))) (\<lambda>currRow.
     bytewise_levInner a b i prevRow js currRow))))))"

fun bytewise_levOuter ::
  "string \<Rightarrow> string \<Rightarrow> int list \<Rightarrow> int list \<Rightarrow> int list \<Rightarrow> error + (int list \<times> int list)" where
  "bytewise_levOuter a b [] prevRow currRow = Inr (prevRow, currRow)"
| "bytewise_levOuter a b (i # is) prevRow currRow =
     bind_err (slice_set currRow 0 (i + 1)) (\<lambda>currRow.
     bind_err (bytewise_levInner a b i prevRow [0..int (length b) - 1] currRow) (\<lambda>currRow.
     bytewise_levOuter a b is currRow prevRow))"

definition bytewise_LevenshteinDistance :: "string \<Rightarrow> string \<Rightarrow> error + int" where
  "bytewise_LevenshteinDistance a b =
     (let aLen = int (length a); bLen = int (length b) in
      if aLen = 0 then Inr bLen
      else if bLen = 0 then Inr aLen
      else if aLen = bLen \<and> a = b then Inr 0
      else
        let rowLen = bLen + 1;
            prevRow = initRow rowLen;
            currRow = replicate (nat rowLen) 0
        in bind_err (bytewise_levOuter a b [0..aLen - 1] prevRow currRow) (\<lambda>(prevRow, currRow).
           slice_get prevRow bLen))"

text \<open>\<^verbatim>\<open>runewise.LevenshteinDistance(a, b []rune) (int, error)\<close>: the inner loop compares
  \<^verbatim>\<open>a[i]\<close> with \<^verbatim>\<open>b[j]\<close>; there is no shortcut for equal inputs.\<close>

fun runewise_levInner ::
  "rune list \<Rightarrow> rune list \<Rightarrow> int \<Rightarrow> int list \<Rightarrow> int list \<Rightarrow> int list \<Rightarrow> error + int list" where
  "runewise_levInner a b i prevRow [] currRow = Inr currRow"
| "runewise_levInner a b i prevRow (j # js) currRow =
     bind_err (slice_get a i) (\<lambda>ai.
     bind_err (slice_get b j) (\<lambda>bj.
     let cost = (if ai = bj then 0 else 1) in
     bind_err (slice_get currRow j) (\<lambda>x.
     bind_err (slice_get prevRow (j + 1)) (\<lambda>y.
     bind_err (slice_get prevRow j) (\<lambda>z.
     bind_err (slice_set currRow (j + 1) (min3 (x + 1) (y + 1) (z + cost))) (\<lambda>currRow.
     runewise_levInner a b i prevRow js currRow))))))"

fun runewise_levOuter ::
  "rune list \<Rightarrow> rune list \<Rightarrow> int list \<Rightarrow> int list \<Rightarrow> int list \<Rightarrow> error + (int list \<times> int list)" where
  "runewise_levOuter a b [] prevRow currRow = Inr (prevRow, currRow)"
| "runewise_levOuter a b (i # is) prevRow currRow =
     bind_err (slice_set currRow 0 (i + 1)) (\<lambda>currRow.
     bind_err (runewise_levInner a b i prevRow [0..int (length b) - 1] currRow) (\<lambda>currRow.
     runewise_levOuter a b is currRow prevRow))"

definition runewise_LevenshteinDistance :: "rune list \<Rightarrow> rune list \<Rightarrow> error + int" where
  "runewise_LevenshteinDistance a b =
     (let aLen = int (length a); bLen = int (length b) in
      if aLen = 0 then Inr bLen
      else if bLen = 0 then Inr aLen
      else
        let rowLen = bLen + 1;
            prevRow = initRow rowLen;
            currRow = replicate (nat rowLen) 0
        in bind_err (runewise_levOuter a b [0..aLen - 1] prevRow currRow) (\<lambda>(prevRow, currRow).
           slice_get prevRow bLen))"

text \<open>The conversion \<^verbatim>\<open>[]rune(s)\<close> of a string of ASCII bytes: each byte is one rune of
  the same value.\<close>

definition ascii_runes :: "string \<Rightarrow> rune list" where
  "ascii_runes s = map of_char s"

text \<open>The dynamic program of the specification: \<open>dp[i][j]\<close> is the number of edits that
  turn the first \<open>i\<close> units of \<open>a\<close> into the first \<open>j\<close> units of \<open>b\<close>, with
  \<open>dp[i][j] = min(dp[i-1][j]+1, dp[i][j-1]+1, dp[i-1][j-1] + cost)\<close> and \<open>cost = 0\<close>
  exactly when the units \<open>a[i-1]\<close> and \<open>b[j-1]\<close> are equal.\<close>

fun lev_dp :: "'a list \<Rightarrow> 'a list \<Rightarrow> nat \<Rightarrow> nat \<Rightarrow> int" where
  "lev_dp a b 0 j = int j"
| "lev_dp a b (Suc i) 0 = int (Suc i)"
| "lev_dp a b (Suc i) (Suc j) =
     min (min (lev_dp a b i (Suc j) + 1) (lev_dp a b (Suc i) j + 1))
         (lev_dp a b i j + (if a ! i = b ! j then 0 else 1))"

text \<open>\<^verbatim>\<open>DamerauLevenshteinDistance\<close>. The bytewise form (on \<^verbatim>\<open>string\<close>, with
  \<^verbatim>\<open>var prevB byte\<close>) and the runewise form (on \<^verbatim>\<open>[]rune\<close>, with \<^verbatim>\<open>var prevB rune\<close>) are
  the same statements on two unit types: the model is written once, over the unit type and
  its zero value \<open>zero\<close>, the initial value of \<^verbatim>\<open>prevA\<close> and \<^verbatim>\<open>prevB\<close>.

  The inner loop \<^verbatim>\<open>for j := start; j <= end; j++\<close> runs over the list of its indices, with
  the state \<open>(currRow, prevA)\<close>.\<close>

fun dlInner ::
  "'a list \<Rightarrow> 'a \<Rightarrow> 'a \<Rightarrow> int list \<Rightarrow> int list \<Rightarrow> int list \<Rightarrow> int list \<Rightarrow> 'a
     \<Rightarrow> error + int list" where
  "dlInner a currB prevB tranRow prevRow [] currRow prevA = Inr currRow"
| "dlInner a currB prevB tranRow prevRow (j # js) currRow prevA =
     bind_err (slice_get a (j - 1)) (\<lambda>currA.
     let cost = (if currA = currB then 0 else 1) in
     bind_err (slice_get currRow (j - 1)) (\<lambda>x.
     bind_err (slice_get prevRow j) (\<lambda>y.
     bind_err (slice_get prevRow (j - 1)) (\<lambda>z.
     let entry = min3 (x + 1) (y + 1) (z + cost) in
     bind_err (if currA = prevB \<and> currB = prevA then
                 bind_err (slice_get tranRow (j - 2)) (\<lambda>t.
                 let trans = t + cost in
                 Inr (if trans < entry then trans else entry))
               else Inr entry) (\<lambda>entry.
     bind_err (slice_set currRow j entry) (\<lambda>currRow.
     dlInner a currB prevB tranRow prevRow js currRow currA))))))"

text \<open>The outer loop \<^verbatim>\<open>for i := 1; i <= bLen; i++\<close>, with the state
  \<open>(tranRow, prevRow, currRow, prevB)\<close>; the rows rotate at the end of each step.\<close>

fun dlOuter ::
  "'a \<Rightarrow> 'a list \<Rightarrow> 'a list \<Rightarrow> int list \<Rightarrow> int list \<Rightarrow> int list \<Rightarrow> int list \<Rightarrow> 'a
     \<Rightarrow> error + (int list \<times> int list \<times> int list)" where
  "dlOuter zero a b [] tranRow prevRow currRow prevB = Inr (tranRow, prevRow, currRow)"
| "dlOuter zero a b (i # is) tranRow prevRow currRow prevB =
     (let aLen = int (length a); bLen = int (length b) in
      bind_err (slice_get b (i - 1)) (\<lambda>currB.
      bind_err (slice_set currRow 0 i) (\<lambda>currRow.
      let start = i - bLen - 1;
          start = (if start < 1 then 1 else start);
          endj = i + bLen + 1;
          endj = (if endj > aLen then aLen else endj);
          prevA = zero
      in
      bind_err (dlInner a currB prevB tranRow prevRow [start..endj] currRow prevA) (\<lambda>currRow.
      dlOuter zero a b is prevRow currRow tranRow currB))))"

definition DamerauLevenshtein :: "'a \<Rightarrow> 'a list \<Rightarrow> 'a list \<Rightarrow> error + int" where
  "DamerauLevenshtein zero a b =
     (let aLen = int (length a); bLen = int (length b) in
      if aLen = 0 then Inr bLen
      else if bLen = 0 then Inr aLen
      else
        let (a, aLen, b, bLen) = (if aLen > bLen then (b, bLen, a, aLen) else (a, aLen, b, bLen));
            rowLen = aLen + 1;
            tranRow = replicate (nat rowLen) 0;
            prevRow = initRow rowLen;
            currRow = replicate (nat rowLen) 0;
            prevB = zero
        in bind_err (dlOuter zero a b [1..bLen] tranRow prevRow currRow prevB)
             (\<lambda>(tranRow, prevRow, currRow). slice_get prevRow aLen))"

text \<open>\<^verbatim>\<open>bytewise.DamerauLevenshteinDistance(a, b string) (int, error)\<close>\<close>

definition bytewise_DamerauLevenshteinDistance :: "string \<Rightarrow> string \<Rightarrow> error + int" where
  "bytewise_DamerauLevenshteinDistance a b = DamerauLevenshtein (CHR 0x00) a b"

text \<open>\<^verbatim>\<open>runewise.DamerauLevenshteinDistance(a, b []rune) (int, error)\<close>\<close>

definition runewise_DamerauLevenshteinDistance :: "rune list \<Rightarrow> rune list \<Rightarrow> error + int" where
  "runewise_DamerauLevenshteinDistance a b = DamerauLevenshtein 0 a b"

section \<open>Properties of the exact-position metrics\<close>

lemma fold_count:
  "fold (\<lambda>i d. if P i then d + 1 else d) xs d0 = d0 + of_nat (length (filter P xs))"
  by (induction xs arbitrary: d0) (simp_all add: algebra_simps)

lemma fold_count_nat:
  "fold (\<lambda>i d. if P i then d + 1 else d) xs (d0::nat) = d0 + length (filter P xs)"
  by (induction xs arbitrary: d0) simp_all

lemma fold_skip: "fold (\<lambda>i d. d) xs d0 = d0"
  by (induction xs) simp_all

lemma count_differ_sym:
  "length a = length b \<Longrightarrow>
   filter (\<lambda>i. a ! i \<noteq> b ! i) [0..<length a] = filter (\<lambda>i. b ! i \<noteq> a ! i) [0..<length b]"
  by (auto intro: filter_cong)

text \<open>
  Claim C8. For inputs of equal length, the Hamming distance of a sequence to itself is 0,
  the distance is symmetric, and it is the number of indices at which the two sequences
  differ; for inputs of unequal length the function fails with \<open>LengthMismatch\<close>.
  Both the \<^verbatim>\<open>stralgo\<close> form (result \<^verbatim>\<open>int\<close>) and the \<^verbatim>\<open>bytewise\<close> form
  (result \<^verbatim>\<open>uint\<close>) are covered.
\<close>

theorem HammingDistance_props:
  "(length a = length b \<longrightarrow>
      stralgo_HammingDistance a a = Inr 0 \<and> bytewise_HammingDistance a a = Inr 0 \<and>
      stralgo_HammingDistance a b = stralgo_HammingDistance b a \<and>
      bytewise_HammingDistance a b = bytewise_HammingDistance b a \<and>
      stralgo_HammingDistance a b = Inr (int (length (filter (\<lambda>i. a ! i \<noteq> b ! i) [0..<length a]))) \<and>
      bytewise_HammingDistance a b = Inr (length (filter (\<lambda>i. a ! i \<noteq> b ! i) [0..<length a]))) \<and>
   (length a \<noteq> length b \<longrightarrow>
      stralgo_HammingDistance a b = Inl LengthMismatch \<and>
      bytewise_HammingDistance a b = Inl LengthMismatch)"
  by (auto simp: stralgo_HammingDistance_def bytewise_HammingDistance_def Let_def
      fold_count fold_count_nat fold_skip count_differ_sym)

theorem HammingDistance_props_witness:
  "length ''toned'' = length ''roses'' \<and>
   stralgo_HammingDistance ''toned'' ''toned'' = Inr 0 \<and>
   stralgo_HammingDistance ''toned'' ''roses'' = stralgo_HammingDistance ''roses'' ''toned'' \<and>
   stralgo_HammingDistance ''toned'' ''roses'' = Inr 3 \<and>
   bytewise_HammingDistance ''toned'' ''roses'' = Inr 3 \<and>
   length ''green eggs'' \<noteq> length ''ham'' \<and>
   stralgo_HammingDistance ''green eggs'' ''ham'' = Inl LengthMismatch \<and>
   bytewise_HammingDistance ''green eggs'' ''ham'' = Inl LengthMismatch"
  using HammingDistance_props [of "''toned''" "''roses''"]
    HammingDistance_props [of "''green eggs''" "''ham''"]
  by (simp add: stralgo_HammingDistance_def bytewise_HammingDistance_def upt_conv_Cons)

lemma lee_step:
  fixes x y :: int
  assumes "\<bar>x - y\<bar> \<le> 1"
  shows "(let diff0 = x - y; diff = (if diff0 < 0 then - diff0 else diff0); qDiff = 2 - diff
          in if diff < qDiff then d + diff else d + qDiff) = (if x \<noteq> y then d + 1 else d)"
  using assms by (auto simp: Let_def)

text \<open>
  Claim C3 (as amended). \<open>LeeDistance\<close> fails with \<open>InvalidAlphabetSize\<close> for every
  \<open>q < 2\<close>. For \<open>q = 2\<close> it returns the Hamming distance of every pair of equal-length
  strings whose bytes at each index differ in value by at most 1, in particular of strings
  over a two-letter alphabet of adjacent byte values such as \<open>{0, 1}\<close>.
\<close>

theorem LeeDistance_binary:
  "(q < 2 \<longrightarrow> LeeDistance a b q = Inl InvalidAlphabetSize) \<and>
   (length a = length b \<and> (\<forall>i<length a. \<bar>of_char (a ! i) - of_char (b ! i) :: int\<bar> \<le> 1) \<longrightarrow>
      LeeDistance a b 2 = stralgo_HammingDistance a b)"
proof (intro conjI impI)
  assume "q < 2"
  then show "LeeDistance a b q = Inl InvalidAlphabetSize"
    by (simp add: LeeDistance_def)
next
  assume h: "length a = length b \<and> (\<forall>i<length a. \<bar>of_char (a ! i) - of_char (b ! i) :: int\<bar> \<le> 1)"
  have "fold (\<lambda>i d.
               let diff0 = of_char (a ! i) - of_char (b ! i);
                   diff = (if diff0 < 0 then - diff0 else diff0);
                   qDiff = 2 - diff
               in if diff < qDiff then d + diff else d + qDiff) [0..<length a] (0::int)
      = fold (\<lambda>i d. if a ! i \<noteq> b ! i then d + 1 else d) [0..<length a] 0"
  proof (rule fold_cong [OF refl refl])
    fix i assume "i \<in> set [0..<length a]"
    then have "\<bar>of_char (a ! i) - of_char (b ! i) :: int\<bar> \<le> 1" using h by simp
    then show "(\<lambda>d. let diff0 = of_char (a ! i) - of_char (b ! i);
                   diff = (if diff0 < 0 then - diff0 else diff0);
                   qDiff = 2 - diff
               in if diff < qDiff then d + diff else d + qDiff) = (\<lambda>d::int. if a ! i \<noteq> b ! i then d + 1 else d)"
      using lee_step [of "of_char (a ! i)" "of_char (b ! i)"] by (intro ext) simp
  qed
  with h show "LeeDistance a b 2 = stralgo_HammingDistance a b"
    by (simp add: LeeDistance_def stralgo_HammingDistance_def Let_def)
qed

theorem LeeDistance_binary_witness:
  "LeeDistance ''ab'' ''ab'' 1 = Inl InvalidAlphabetSize \<and>
   length ''abba'' = length ''aabb'' \<and>
   LeeDistance ''abba'' ''aabb'' 2 = stralgo_HammingDistance ''abba'' ''aabb'' \<and>
   LeeDistance ''abba'' ''aabb'' 2 = Inr 2"
  using LeeDistance_binary [of 1 "''ab''" "''ab''"] LeeDistance_binary [of 2 "''abba''" "''aabb''"]
  by (simp add: LeeDistance_def stralgo_HammingDistance_def upt_conv_Cons)

text \<open>
  The claim C3 as stated, for all equal-length strings, fails: the bytes \<open>a\<close> and \<open>c\<close>
  differ by 2, so \<open>q - diff = 0\<close> is added and the Lee distance is 0, while the Hamming
  distance is 1.
\<close>

theorem LeeDistance_q2_counterexample:
  "length ''a'' = length ''c'' \<and> LeeDistance ''a'' ''c'' 2 \<noteq> stralgo_HammingDistance ''a'' ''c''"
  by (simp add: LeeDistance_def stralgo_HammingDistance_def)

section \<open>Properties of the Dice coefficient\<close>

lemma scan_first:
  "fold (\<lambda>k (S, t). if \<not> S k then (S(k := True), t + 1) else (S, t)) ks (S0, t0::nat)
     = (\<lambda>k. S0 k \<or> k \<in> set ks, t0 + card (set ks - Collect S0))"
proof (induction ks arbitrary: S0 t0)
  case Nil
  then show ?case by simp
next
  case (Cons k ks)
  show ?case
  proof (cases "S0 k")
    case True
    then have "set (k # ks) - Collect S0 = set ks - Collect S0" by auto
    with True Cons show ?thesis by (auto simp: fun_eq_iff)
  next
    case False
    let ?R = "set ks - Collect (S0(k := True))"
    have e: "set (k # ks) - Collect S0 = insert k ?R"
      using False by (auto split: if_splits)
    have nk: "k \<notin> ?R" by simp
    have c1: "card (set (k # ks) - Collect S0) = Suc (card ?R)"
      unfolding e using nk by (subst card_insert_disjoint) auto
    have step: "fold (\<lambda>k (S, t). if \<not> S k then (S(k := True), t + 1) else (S, t)) (k # ks) (S0, t0)
       = fold (\<lambda>k (S, t). if \<not> S k then (S(k := True), t + 1) else (S, t)) ks (S0(k := True), t0 + 1)"
      using False by simp
    show ?thesis
      unfolding step Cons.IH c1 by (auto simp: fun_eq_iff)
  qed
qed

lemma scan_second:
  "fold (\<lambda>k (S, t, sh). if \<not> S k then (S(k := True), t + 1, if A k then sh + 1 else sh)
                         else (S, t, sh)) ks (S0, t0::nat, sh0::nat)
     = (\<lambda>k. S0 k \<or> k \<in> set ks, t0 + card (set ks - Collect S0),
        sh0 + card ((set ks - Collect S0) \<inter> Collect A))"
proof (induction ks arbitrary: S0 t0 sh0)
  case Nil
  then show ?case by simp
next
  case (Cons k ks)
  show ?case
  proof (cases "S0 k")
    case True
    then have "set (k # ks) - Collect S0 = set ks - Collect S0" by auto
    with True Cons show ?thesis by (auto simp: fun_eq_iff)
  next
    case False
    let ?R = "set ks - Collect (S0(k := True))"
    have e: "set (k # ks) - Collect S0 = insert k ?R"
      using False by (auto split: if_splits)
    have nk: "k \<notin> ?R" by simp
    have c1: "card (set (k # ks) - Collect S0) = Suc (card ?R)"
      unfolding e using nk by (subst card_insert_disjoint) auto
    have c2: "card ((set (k # ks) - Collect S0) \<inter> Collect A)
                = (if A k then Suc (card (?R \<inter> Collect A)) else card (?R \<inter> Collect A))"
    proof (cases "A k")
      case True
      then have "(insert k ?R) \<inter> Collect A = insert k (?R \<inter> Collect A)" by auto
      moreover have "k \<notin> ?R \<inter> Collect A" using nk by simp
      ultimately show ?thesis unfolding e using True
        by (simp del: Diff_iff Int_iff)
    next
      case False
      then have "(insert k ?R) \<inter> Collect A = ?R \<inter> Collect A" by auto
      then show ?thesis unfolding e using False by simp
    qed
    have step: "fold (\<lambda>k (S, t, sh). if \<not> S k then (S(k := True), t + 1, if A k then sh + 1 else sh)
                         else (S, t, sh)) (k # ks) (S0, t0, sh0)
       = fold (\<lambda>k (S, t, sh). if \<not> S k then (S(k := True), t + 1, if A k then sh + 1 else sh)
                         else (S, t, sh)) ks (S0(k := True), t0 + 1, if A k then sh0 + 1 else sh0)"
      using False by simp
    show ?thesis
      unfolding step Cons.IH c1 c2 by (auto simp: fun_eq_iff)
  qed
qed

lemma scanA:
  "fold (\<lambda>i (S, t). if \<not> S (g i) then (S(g i := True), t + 1) else (S, t)) xs (S0, t0::nat)
     = (\<lambda>k. S0 k \<or> k \<in> g ` set xs, t0 + card (g ` set xs - Collect S0))"
proof -
  have "fold (\<lambda>i (S, t). if \<not> S (g i) then (S(g i := True), t + 1) else (S, t)) xs (S0, t0)
      = fold (\<lambda>k (S, t). if \<not> S k then (S(k := True), t + 1) else (S, t)) (map g xs) (S0, t0)"
    by (simp add: fold_map comp_def)
  then show ?thesis unfolding scan_first by simp
qed

lemma scanB:
  "fold (\<lambda>i (S, t, sh). if \<not> S (g i) then (S(g i := True), t + 1, if A (g i) then sh + 1 else sh)
                         else (S, t, sh)) xs (S0, t0::nat, sh0::nat)
     = (\<lambda>k. S0 k \<or> k \<in> g ` set xs, t0 + card (g ` set xs - Collect S0),
        sh0 + card ((g ` set xs - Collect S0) \<inter> Collect A))"
proof -
  have "fold (\<lambda>i (S, t, sh). if \<not> S (g i) then (S(g i := True), t + 1, if A (g i) then sh + 1 else sh)
                         else (S, t, sh)) xs (S0, t0, sh0)
      = fold (\<lambda>k (S, t, sh). if \<not> S k then (S(k := True), t + 1, if A k then sh + 1 else sh)
                         else (S, t, sh)) (map g xs) (S0, t0, sh0)"
    by (simp add: fold_map comp_def)
  then show ?thesis unfolding scan_second by simp
qed

lemma byte_bigrams_index:
  "(\<lambda>i. take 2 (drop i s)) ` set [0..<nat (int (length s) - 1)] = byte_bigrams s"
  unfolding byte_bigrams_def by (rule arg_cong [where f = "image _"]) auto

lemma rune_bigrams_index:
  "(\<lambda>i. (s ! i, s ! (i + 1))) ` set [0..<nat (int (length s) - 1)] = rune_bigrams s"
  unfolding rune_bigrams_def by (rule arg_cong [where f = "image _"]) auto

lemma bytewise_Dice_value:
  "bytewise_DiceCoefficient a b =
     (if length a \<le> 1 \<and> length b \<le> 1 then Inl InsufficientLength
      else Inr (2 * of_nat (card (byte_bigrams b \<inter> byte_bigrams a))
                / of_nat (card (byte_bigrams a) + card (byte_bigrams b))))"
proof -
  have l: "(int (length a) - 1 < 1 \<and> int (length b) - 1 < 1) = (length a \<le> 1 \<and> length b \<le> 1)"
    by auto
  show ?thesis
    unfolding bytewise_DiceCoefficient_def Let_def l scanA prod.case byte_bigrams_index
      scanB [where g = "\<lambda>i. take 2 (drop i b)" and A = "\<lambda>k. False \<or> k \<in> byte_bigrams a"]
    by (simp add: Int_commute)
qed

lemma runewise_Dice_value:
  "runewise_DiceCoefficient a b =
     (if length a \<le> 1 \<and> length b \<le> 1 then Inl InsufficientLength
      else Inr (2 * of_nat (card (rune_bigrams b \<inter> rune_bigrams a))
                / of_nat (card (rune_bigrams a) + card (rune_bigrams b))))"
proof -
  have l: "(int (length a) - 1 < 1 \<and> int (length b) - 1 < 1) = (length a \<le> 1 \<and> length b \<le> 1)"
    by auto
  show ?thesis
    unfolding runewise_DiceCoefficient_def Let_def l scanA prod.case rune_bigrams_index
      scanB [where g = "\<lambda>i. (b ! i, b ! (i + 1))" and A = "\<lambda>k. False \<or> k \<in> rune_bigrams a"]
    by (simp add: Int_commute)
qed

lemma bigrams_short:
  "length s \<le> 1 \<Longrightarrow> byte_bigrams s = {}" "length r \<le> 1 \<Longrightarrow> rune_bigrams r = {}"
  by (auto simp: byte_bigrams_def rune_bigrams_def)

text \<open>
  Claim C7. \<open>DiceCoefficient\<close> returns an error exactly when both inputs have length at
  most 1. Whenever one input has length at least 2 it returns, with no error, the ratio
  of twice the number of shared distinct bigrams to the sum of the numbers of distinct
  bigrams of the two inputs; an input of length 0 or 1 has no bigram. Stated for the
  bytewise and the runewise form.
\<close>

theorem DiceCoefficient_error_iff:
  "bytewise_DiceCoefficient a b =
     (if length a \<le> 1 \<and> length b \<le> 1 then Inl InsufficientLength
      else Inr (2 * of_nat (card (byte_bigrams b \<inter> byte_bigrams a))
                / of_nat (card (byte_bigrams a) + card (byte_bigrams b)))) \<and>
   runewise_DiceCoefficient r s =
     (if length r \<le> 1 \<and> length s \<le> 1 then Inl InsufficientLength
      else Inr (2 * of_nat (card (rune_bigrams s \<inter> rune_bigrams r))
                / of_nat (card (rune_bigrams r) + card (rune_bigrams s)))) \<and>
   (length a \<le> 1 \<longrightarrow> byte_bigrams a = {}) \<and>
   (length r \<le> 1 \<longrightarrow> rune_bigrams r = {})"
  using bytewise_Dice_value [of a b] runewise_Dice_value [of r s]
    bigrams_short(1) [of a] bigrams_short(2) [of r]
  by simp

theorem DiceCoefficient_error_iff_witness:
  "length ''G'' \<le> 1 \<and> byte_bigrams ''G'' = {} \<and>
   length [7 :: rune] \<le> 1 \<and> rune_bigrams [7] = {} \<and>
   bytewise_DiceCoefficient ''G'' ''GGGG'' = Inr 0 \<and>
   bytewise_DiceCoefficient ''a'' ''b'' = Inl InsufficientLength \<and>
   bytewise_DiceCoefficient ''night'' ''nacht'' = Inr (1 / 4) \<and>
   runewise_DiceCoefficient [7] [1, 2, 3] = Inr 0 \<and>
   runewise_DiceCoefficient [7] [] = Inl InsufficientLength"
  using DiceCoefficient_error_iff [of "''G''" "''GGGG''" "[7]" "[1, 2, 3]"]
  by (simp add: bytewise_DiceCoefficient_def runewise_DiceCoefficient_def upt_conv_Cons)

section \<open>Properties of the White similarity\<close>

text \<open>
  Claim C2, at the input where it fails. A consumed slot of \<open>bPairs\<close> is overwritten with the
  zero bigram, and NUL is not whitespace: a bigram of two NUL units in \<open>a\<close> is equal to
  every consumed slot and matches it again. For \<open>a = "ab\\x00\\x00\\x00"\<close> and
  \<open>b = "ab"\<close> the lists have 4 and 1 bigrams, the single slot of \<open>b\<close> is matched three
  times, and the result is \<open>2 * 3 / (4 + 1) = 6/5\<close>, above 1.
\<close>

theorem WhiteSimilarity_sentinel_reuse:
  "bytewise_WhiteSimilarity [CHR ''a'', CHR ''b'', CHR 0x00, CHR 0x00, CHR 0x00] ''ab'' = Inr (6 / 5) \<and>
   runewise_WhiteSimilarity (\<lambda>r. r = 32) (\<lambda>r. if 97 \<le> r \<and> r \<le> 122 then r - 32 else r)
     [97, 98, 0, 0, 0] [97, 98] = Inr (6 / 5)"
  by code_simp









section \<open>Properties of the Levenshtein distance\<close>

lemma bind_err_simps:
  "bind_err (Inr x) f = f x" "bind_err (Inl e) f = Inl e"
  by (simp_all add: bind_err_def)

lemma slice_get_nat:
  "k < length xs \<Longrightarrow> slice_get xs (int k) = Inr (xs ! k)"
  by (simp add: slice_get_def)

lemma slice_set_nat:
  "k < length xs \<Longrightarrow> slice_set xs (int k) v = Inr (xs[k := v])"
  by (simp add: slice_set_def)

lemma min3_min: "min3 a b c = min (min a b) c"
  by (auto simp: min3_def Let_def min_def)

lemma initRow_fold:
  "k \<le> Suc n \<Longrightarrow> length row = Suc n \<Longrightarrow> (\<forall>j<k. row ! j = int j) \<Longrightarrow>
   length (fold (\<lambda>h row. row[nat h := h]) [int k..int n] row) = Suc n \<and>
   (\<forall>j\<le>n. fold (\<lambda>h row. row[nat h := h]) [int k..int n] row ! j = int j)"
proof (induction "Suc n - k" arbitrary: k row)
  case 0
  then have "k = Suc n" by simp
  then have "[int k..int n] = []" by simp
  with 0 show ?case by (auto simp: less_Suc_eq_le)
next
  case (Suc d)
  then have kn: "k \<le> n" by simp
  then have u: "[int k..int n] = int k # [int (Suc k)..int n]"
    by (simp add: upto_rec1 add.commute)
  have "length (fold (\<lambda>h row. row[nat h := h]) [int (Suc k)..int n] (row[k := int k])) = Suc n \<and>
   (\<forall>j\<le>n. fold (\<lambda>h row. row[nat h := h]) [int (Suc k)..int n] (row[k := int k]) ! j = int j)"
  proof (rule Suc.hyps(1))
    show "d = Suc n - Suc k" using Suc.hyps(2) by simp
    show "Suc k \<le> Suc n" using kn by simp
    show "length (row[k := int k]) = Suc n" using Suc.prems by simp
    have "k < length row" using Suc.prems kn by simp
    then show "\<forall>j<Suc k. row[k := int k] ! j = int j"
      using Suc.prems kn by (auto simp: nth_list_update less_Suc_eq)
  qed
  then show ?case unfolding u by simp
qed

lemma initRow_nth:
  "length (initRow (int (Suc n))) = Suc n \<and> (\<forall>j\<le>n. initRow (int (Suc n)) ! j = int j)"
proof -
  have e: "int (Suc n) - 1 = int n" "nat (int (Suc n)) = Suc n" by simp_all
  show ?thesis
    unfolding initRow_def e using initRow_fold [of 0 n "replicate (Suc n) 0"]
    by simp
qed


lemma runewise_levInner_row:
  assumes "k \<le> n" "n = length b" "i < length a"
    "length prevRow = Suc n" "length currRow = Suc n"
    "\<forall>j\<le>n. prevRow ! j = lev_dp a b i j"
    "\<forall>j\<le>k. currRow ! j = lev_dp a b (Suc i) j"
  shows "\<exists>row. runewise_levInner a b (int i) prevRow [int k..int n - 1] currRow = Inr row \<and>
           length row = Suc n \<and> (\<forall>j\<le>n. row ! j = lev_dp a b (Suc i) j)"
  using assms
proof (induction "n - k" arbitrary: k currRow)
  case 0
  then have "k = n" by simp
  then have "[int k..int n - 1] = []" by simp
  with 0 show ?case by simp
next
  case (Suc d)
  then have kn: "k < n" by simp
  then have u: "[int k..int n - 1] = int k # [int (Suc k)..int n - 1]"
    by (simp add: upto_rec1 add.commute)
  let ?v = "min3 (currRow ! k + 1) (prevRow ! Suc k + 1)
              (prevRow ! k + (if a ! i = b ! k then 0 else 1))"
  have v: "?v = lev_dp a b (Suc i) (Suc k)"
    using Suc.prems kn by (simp add: min3_min min.commute)
  have step: "runewise_levInner a b (int i) prevRow [int k..int n - 1] currRow
      = runewise_levInner a b (int i) prevRow [int (Suc k)..int n - 1] (currRow[Suc k := ?v])"
  proof -
    have g: "slice_get a (int i) = Inr (a ! i)" "slice_get b (int k) = Inr (b ! k)"
      "slice_get currRow (int k) = Inr (currRow ! k)"
      "slice_get prevRow (int k + 1) = Inr (prevRow ! Suc k)"
      "slice_get prevRow (int k) = Inr (prevRow ! k)"
      "slice_set currRow (int k + 1) ?v = Inr (currRow[Suc k := ?v])"
      using Suc.prems kn slice_get_nat [of "Suc k" prevRow] slice_set_nat [of "Suc k" currRow ?v]
      by (simp_all add: slice_get_nat add.commute)
    show ?thesis
      unfolding u runewise_levInner.simps g bind_err_simps Let_def ..
  qed
  have "\<exists>row. runewise_levInner a b (int i) prevRow [int (Suc k)..int n - 1] (currRow[Suc k := ?v]) = Inr row \<and>
           length row = Suc n \<and> (\<forall>j\<le>n. row ! j = lev_dp a b (Suc i) j)"
  proof (rule Suc.hyps(1))
    show "d = n - Suc k" using Suc.hyps(2) by simp
    show "Suc k \<le> n" using kn by simp
    show "length (currRow[Suc k := ?v]) = Suc n" using Suc.prems by simp
    have "Suc k < length currRow" using Suc.prems kn by simp
    then show "\<forall>j\<le>Suc k. currRow[Suc k := ?v] ! j = lev_dp a b (Suc i) j"
      using Suc.prems(7) v by (auto simp: nth_list_update le_Suc_eq)
  qed (use Suc.prems in simp_all)
  then show ?case unfolding step .
qed

lemma runewise_levOuter_rows:
  assumes "k \<le> m" "m = length a" "n = length b"
    "length prevRow = Suc n" "length currRow = Suc n"
    "\<forall>j\<le>n. prevRow ! j = lev_dp a b k j"
  shows "\<exists>p c. runewise_levOuter a b [int k..int m - 1] prevRow currRow = Inr (p, c) \<and>
           length p = Suc n \<and> (\<forall>j\<le>n. p ! j = lev_dp a b m j)"
  using assms
proof (induction "m - k" arbitrary: k prevRow currRow)
  case 0
  then have "k = m" by simp
  then have "[int k..int m - 1] = []" by simp
  with 0 show ?case by simp
next
  case (Suc d)
  then have km: "k < m" by simp
  then have u: "[int k..int m - 1] = int k # [int (Suc k)..int m - 1]"
    by (simp add: upto_rec1 add.commute)
  let ?c = "currRow[0 := int k + 1]"
  have s0: "slice_set currRow 0 (int k + 1) = Inr ?c"
    using Suc.prems slice_set_nat [of 0 currRow] by simp
  have "\<exists>row. runewise_levInner a b (int k) prevRow [int 0..int n - 1] ?c = Inr row \<and>
           length row = Suc n \<and> (\<forall>j\<le>n. row ! j = lev_dp a b (Suc k) j)"
  proof (rule runewise_levInner_row)
    show "\<forall>j\<le>0. ?c ! j = lev_dp a b (Suc k) j" using Suc.prems by simp
  qed (use Suc.prems km in simp_all)
  then obtain row where row: "runewise_levInner a b (int k) prevRow [0..int (length b) - 1] ?c = Inr row"
    "length row = Suc n" "\<forall>j\<le>n. row ! j = lev_dp a b (Suc k) j"
    using Suc.prems(3) by auto
  have step: "runewise_levOuter a b [int k..int m - 1] prevRow currRow
      = runewise_levOuter a b [int (Suc k)..int m - 1] row prevRow"
    unfolding u runewise_levOuter.simps s0 bind_err_simps row(1) ..
  have "\<exists>p c. runewise_levOuter a b [int (Suc k)..int m - 1] row prevRow = Inr (p, c) \<and>
           length p = Suc n \<and> (\<forall>j\<le>n. p ! j = lev_dp a b m j)"
  proof (rule Suc.hyps(1))
    show "d = m - Suc k" using Suc.hyps(2) by simp
    show "Suc k \<le> m" using km by simp
  qed (use Suc.prems row in simp_all)
  then show ?case unfolding step .
qed

text \<open>
  The runewise form computes the dynamic program of the specification for every pair of
  inputs; it never panics, it is symmetric, and the distance to the empty sequence is the
  length.
\<close>

lemma runewise_Levenshtein_dp:
  "runewise_LevenshteinDistance a b = Inr (lev_dp a b (length a) (length b))"
proof (cases "a = [] \<or> b = []")
  case True
  then show ?thesis
  proof
    assume "a = []" then show ?thesis by (simp add: runewise_LevenshteinDistance_def)
  next
    assume "b = []" then show ?thesis
      by (cases a) (simp_all add: runewise_LevenshteinDistance_def)
  qed
next
  case False
  let ?n = "length b"
  have n: "int ?n + 1 = int (Suc ?n)" by simp
  have ir: "length (initRow (int (Suc ?n))) = Suc ?n" "\<forall>j\<le>?n. initRow (int (Suc ?n)) ! j = lev_dp a b 0 j"
    using initRow_nth [of ?n] by simp_all
  have "\<exists>p c. runewise_levOuter a b [int 0..int (length a) - 1] (initRow (int (Suc ?n)))
            (replicate (Suc ?n) 0) = Inr (p, c) \<and>
           length p = Suc ?n \<and> (\<forall>j\<le>?n. p ! j = lev_dp a b (length a) j)"
    by (rule runewise_levOuter_rows) (use ir in simp_all)
  then obtain p c where pc: "runewise_levOuter a b [0..int (length a) - 1] (initRow (int (Suc ?n)))
            (replicate (Suc ?n) 0) = Inr (p, c)" "length p = Suc ?n" "p ! ?n = lev_dp a b (length a) ?n"
    by auto
  have "nat (int (Suc ?n)) = Suc ?n" by simp
  then show ?thesis
    using False pc slice_get_nat [of ?n p]
    unfolding runewise_LevenshteinDistance_def Let_def n
    by (simp add: bind_err_simps del: of_nat_Suc)
qed


lemma lev_dp_sym: "lev_dp a b i j = lev_dp b a j i"
proof (induction a b i j rule: lev_dp.induct)
  case (1 a b j)
  then show ?case by (cases j) simp_all
next
  case (2 a b i)
  then show ?case by simp
next
  case (3 a b i j)
  then show ?case by (simp add: min.commute eq_commute)
qed

lemma runewise_Levenshtein_sym:
  "runewise_LevenshteinDistance a b = runewise_LevenshteinDistance b a"
  by (simp add: runewise_Levenshtein_dp lev_dp_sym [of a b])

lemma runewise_Levenshtein_empty:
  "runewise_LevenshteinDistance s [] = Inr (int (length s))"
  by (cases s) (simp_all add: runewise_Levenshtein_dp)

text \<open>
  Claim C1, at the inputs where it fails. The bytewise form computes the substitution cost
  from \<^verbatim>\<open>a[i] == b[i]\<close>, not from \<^verbatim>\<open>a[i] == b[j]\<close>. For \<open>"abc"\<close> and \<open>"bca"\<close> every row
  has cost 1 and the result is 3, while the dynamic program of the specification, and the
  runewise form, give 2. For \<open>"ab"\<close> and \<open>"a"\<close> the read \<^verbatim>\<open>b[1]\<close> is out of range and the call
  panics, while the call with the arguments exchanged returns 1. The pair
  \<open>"kitten"\<close>, \<open>"sitting"\<close> of the test suite gives 3 all the same.
\<close>

theorem bytewise_LevenshteinDistance_row_index:
  "bytewise_LevenshteinDistance ''abc'' ''bca'' = Inr 3 \<and>
   lev_dp ''abc'' ''bca'' (length ''abc'') (length ''bca'') = 2 \<and>
   runewise_LevenshteinDistance (ascii_runes ''abc'') (ascii_runes ''bca'') = Inr 2 \<and>
   bytewise_LevenshteinDistance ''a'' ''ab'' = Inr 1 \<and>
   bytewise_LevenshteinDistance ''ab'' ''a'' = Inl IndexOutOfRange \<and>
   bytewise_LevenshteinDistance ''kitten'' ''sitting'' = Inr 3"
  by code_simp

section \<open>Properties of the Damerau-Levenshtein distance\<close>

lemma dlInner_returns:
  assumes "1 \<le> k" "k \<le> Suc n" "n = length a"
    "length tranRow = Suc n" "length prevRow = Suc n" "length currRow = Suc n"
    "k = 1 \<longrightarrow> currB \<noteq> prevA"
  shows "\<exists>row. dlInner a currB prevB tranRow prevRow [int k..int n] currRow prevA = Inr row \<and>
           length row = Suc n"
  using assms
proof (induction "Suc n - k" arbitrary: k currRow prevA)
  case 0
  then have "k = Suc n" by simp
  then have "[int k..int n] = []" by simp
  with 0 show ?case by simp
next
  case (Suc d)
  then have kn: "k \<le> n" by simp
  then have u: "[int k..int n] = int k # [int (Suc k)..int n]"
    by (simp add: upto_rec1 add.commute)
  obtain k' where k': "k = Suc k'" using Suc.prems(1) by (cases k) simp_all
  let ?currA = "a ! k'"
  let ?cost = "if ?currA = currB then 0 else (1::int)"
  let ?entry = "min3 (currRow ! k' + 1) (prevRow ! k + 1) (prevRow ! k' + ?cost)"
  have g: "slice_get a (int k - 1) = Inr ?currA"
    "slice_get currRow (int k - 1) = Inr (currRow ! k')"
    "slice_get prevRow (int k) = Inr (prevRow ! k)"
    "slice_get prevRow (int k - 1) = Inr (prevRow ! k')"
    using Suc.prems kn k' slice_get_nat [of k' a] slice_get_nat [of k' currRow]
      slice_get_nat [of k' prevRow] slice_get_nat [of k prevRow]
    by simp_all
  have "\<exists>e. (if ?currA = prevB \<and> currB = prevA then
                 bind_err (slice_get tranRow (int k - 2)) (\<lambda>t.
                 let trans = t + ?cost in
                 Inr (if trans < ?entry then trans else ?entry))
               else Inr ?entry) = Inr e"
  proof (cases "?currA = prevB \<and> currB = prevA")
    case True
    then have "k \<noteq> 1" using Suc.prems(7) by auto
    then obtain k'' where k'': "k' = Suc k''" using k' by (cases k') simp_all
    have "slice_get tranRow (int k - 2) = Inr (tranRow ! k'')"
      using slice_get_nat [of k'' tranRow] Suc.prems kn k' k'' by simp
    then show ?thesis using True by (simp add: bind_err_simps Let_def)
  next
    case False
    then show ?thesis by auto
  qed
  then obtain e where e: "(if ?currA = prevB \<and> currB = prevA then
                 bind_err (slice_get tranRow (int k - 2)) (\<lambda>t.
                 let trans = t + ?cost in
                 Inr (if trans < ?entry then trans else ?entry))
               else Inr ?entry) = Inr e" ..
  have w: "slice_set currRow (int k) e = Inr (currRow[k := e])"
    using Suc.prems kn by (simp add: slice_set_nat)
  have step: "dlInner a currB prevB tranRow prevRow [int k..int n] currRow prevA
      = dlInner a currB prevB tranRow prevRow [int (Suc k)..int n] (currRow[k := e]) ?currA"
    unfolding u dlInner.simps g bind_err_simps Let_def
    using e w unfolding Let_def by (simp add: bind_err_simps)
  have "\<exists>row. dlInner a currB prevB tranRow prevRow [int (Suc k)..int n] (currRow[k := e]) ?currA = Inr row \<and>
           length row = Suc n"
  proof (rule Suc.hyps(1))
    show "d = Suc n - Suc k" using Suc.hyps(2) by simp
    show "Suc k = 1 \<longrightarrow> currB \<noteq> ?currA" using k' by simp
  qed (use Suc.prems kn in simp_all)
  then show ?case unfolding step .
qed


lemma dlOuter_returns:
  assumes "1 \<le> k" "k \<le> Suc m" "m = length b" "n = length a" "n \<le> m"
    "length tranRow = Suc n" "length prevRow = Suc n" "length currRow = Suc n"
    "zero \<notin> set b"
  shows "\<exists>t p c. dlOuter zero a b [int k..int m] tranRow prevRow currRow prevB = Inr (t, p, c) \<and>
           length p = Suc n"
  using assms
proof (induction "Suc m - k" arbitrary: k tranRow prevRow currRow prevB)
  case 0
  then have "k = Suc m" by simp
  then have "[int k..int m] = []" by simp
  with 0 show ?case by simp
next
  case (Suc d)
  then have km: "k \<le> m" by simp
  then have u: "[int k..int m] = int k # [int (Suc k)..int m]"
    by (simp add: upto_rec1 add.commute)
  obtain k' where k': "k = Suc k'" using Suc.prems(1) by (cases k) simp_all
  let ?currB = "b ! k'"
  have nz: "?currB \<noteq> zero"
    using Suc.prems(9) km k' Suc.prems(3) by (metis Suc_le_lessD nth_mem)
  have g: "slice_get b (int k - 1) = Inr ?currB"
    "slice_set currRow 0 (int k) = Inr (currRow[0 := int k])"
    using Suc.prems km k' slice_get_nat [of k' b] slice_set_nat [of 0 currRow] by simp_all
  have se: "(if int k - int (length b) - 1 < 1 then 1 else int k - int (length b) - 1) = 1"
    "(if int k + int (length b) + 1 > int (length a) then int (length a) else int k + int (length b) + 1)
       = int n"
    using Suc.prems km by auto
  have "\<exists>row. dlInner a ?currB prevB tranRow prevRow [int 1..int n] (currRow[0 := int k]) zero = Inr row \<and>
           length row = Suc n"
    by (rule dlInner_returns) (use Suc.prems nz in simp_all)
  then obtain row where row: "dlInner a ?currB prevB tranRow prevRow [1..int n] (currRow[0 := int k]) zero = Inr row"
    "length row = Suc n" by auto
  have step: "dlOuter zero a b [int k..int m] tranRow prevRow currRow prevB
      = dlOuter zero a b [int (Suc k)..int m] prevRow row tranRow ?currB"
    unfolding u dlOuter.simps Let_def g bind_err_simps se row(1) ..
  have "\<exists>t p c. dlOuter zero a b [int (Suc k)..int m] prevRow row tranRow ?currB = Inr (t, p, c) \<and>
           length p = Suc n"
  proof (rule Suc.hyps(1))
    show "d = Suc m - Suc k" using Suc.hyps(2) by simp
  qed (use Suc.prems km row in simp_all)
  then show ?case unfolding step .
qed

lemma DamerauLevenshtein_ordered:
  assumes "a \<noteq> []" "length a \<le> length b" "zero \<notin> set b"
  shows "\<exists>d. bind_err (dlOuter zero a b [1..int (length b)]
              (replicate (nat (int (length a) + 1)) 0) (initRow (int (length a) + 1))
              (replicate (nat (int (length a) + 1)) 0) zero)
             (\<lambda>(tranRow, prevRow, currRow). slice_get prevRow (int (length a))) = Inr d"
proof -
  let ?n = "length a"
  have n: "int ?n + 1 = int (Suc ?n)" "nat (int (Suc ?n)) = Suc ?n" by simp_all
  have "\<exists>t p c. dlOuter zero a b [int 1..int (length b)] (replicate (Suc ?n) 0) (initRow (int (Suc ?n)))
            (replicate (Suc ?n) 0) zero = Inr (t, p, c) \<and> length p = Suc ?n"
    by (rule dlOuter_returns) (use assms initRow_nth [of ?n] in simp_all)
  then obtain t p c where r: "dlOuter zero a b [1..int (length b)] (replicate (Suc ?n) 0)
      (initRow (int (Suc ?n))) (replicate (Suc ?n) 0) zero = Inr (t, p, c)" "length p = Suc ?n"
    by auto
  show ?thesis
    unfolding n r(1) bind_err_simps using r(2) slice_get_nat [of ?n p] by simp
qed

text \<open>
  On inputs without a zero unit every read and write of the banded scan is in range and the
  function returns a value: \<^verbatim>\<open>tranRow[j-2]\<close> is read only when \<open>currB = prevA\<close>, and at
  \<open>j = 1\<close> the unit \<open>prevA\<close> is still the zero value.
\<close>

lemma DamerauLevenshtein_returns:
  assumes "zero \<notin> set a" "zero \<notin> set b"
  shows "\<exists>d. DamerauLevenshtein zero a b = Inr d"
proof (cases "a = [] \<or> b = []")
  case True
  then show ?thesis by (auto simp: DamerauLevenshtein_def Let_def)
next
  case False
  show ?thesis
  proof (cases "length a > length b")
    case True
    then have "\<exists>d. bind_err (dlOuter zero b a [1..int (length a)]
              (replicate (nat (int (length b) + 1)) 0) (initRow (int (length b) + 1))
              (replicate (nat (int (length b) + 1)) 0) zero)
             (\<lambda>(tranRow, prevRow, currRow). slice_get prevRow (int (length b))) = Inr d"
      using False assms by (intro DamerauLevenshtein_ordered) simp_all
    then show ?thesis using False True by (simp add: DamerauLevenshtein_def Let_def)
  next
    case le: False
    then have "\<exists>d. bind_err (dlOuter zero a b [1..int (length b)]
              (replicate (nat (int (length a) + 1)) 0) (initRow (int (length a) + 1))
              (replicate (nat (int (length a) + 1)) 0) zero)
             (\<lambda>(tranRow, prevRow, currRow). slice_get prevRow (int (length a))) = Inr d"
      using False assms by (intro DamerauLevenshtein_ordered) simp_all
    then show ?thesis using False le by (simp add: DamerauLevenshtein_def Let_def)
  qed
qed

text \<open>
  Claim C4, at the inputs where it fails. \<^verbatim>\<open>prevA\<close> and \<^verbatim>\<open>prevB\<close> start as the zero unit.
  When the inputs hold NUL units the test \<^verbatim>\<open>currA == prevB && currB == prevA\<close> can succeed
  at \<open>j = 1\<close>, and the read \<^verbatim>\<open>tranRow[j-2]\<close> is at index \<open>-1\<close>: the call panics. This
  happens for the one-unit sequences holding NUL, in both forms, and for \<open>[97]\<close> against
  \<open>[97, 0]\<close>; without the NUL the same call returns 1.
\<close>

theorem DamerauLevenshtein_nul_panics:
  "bytewise_DamerauLevenshteinDistance [CHR 0x00] [CHR 0x00] = Inl IndexOutOfRange \<and>
   runewise_DamerauLevenshteinDistance [0] [0] = Inl IndexOutOfRange \<and>
   runewise_DamerauLevenshteinDistance [97] [97, 0] = Inl IndexOutOfRange \<and>
   runewise_DamerauLevenshteinDistance [97] [97, 98] = Inr 1"
  by code_simp

end
